theory Spec2Isabelle
  imports Main "HOL-Library.Word"
begin

section \<open>JavaScript values and strings\<close>

text \<open>
  A JavaScript string is a sequence of UTF-16 code units; \<open>length\<close> counts code units.
  String literals of the source are ASCII and are written through \<open>ascii\<close>.
\<close>

type_synonym jsstring = "16 word list"

definition ascii :: "string \<Rightarrow> jsstring" where
  "ascii s = map (\<lambda>c. of_nat (of_char c)) s"

text \<open>
  The values the validators can be handed: \<open>undefined\<close>, \<open>null\<close>, booleans, strings, and
  \<open>JObject\<close> for any object that has no callable \<open>trim\<close> property (a \<open>File\<close> returned by
  \<open>FormData.get\<close>, a plain object). Numbers are left out: in this code they behave as
  the booleans do (falsy or truthy, and without a \<open>trim\<close> method).
\<close>

datatype jsval = JUndefined | JNull | JBool bool | JStr jsstring | JObject

abbreviation js :: "string \<Rightarrow> jsval" where
  "js s \<equiv> JStr (ascii s)"

datatype js_error = TypeError

text \<open>ToBoolean, as used by \<open>!v\<close>.\<close>

fun truthy :: "jsval \<Rightarrow> bool" where
  "truthy JUndefined = False"
| "truthy JNull = False"
| "truthy (JBool b) = b"
| "truthy (JStr s) = (s \<noteq> [])"
| "truthy JObject = True"

fun is_string :: "jsval \<Rightarrow> bool" where
  "is_string (JStr s) = True"
| "is_string _ = False"

text \<open>
  The code units \<open>String.prototype.trim\<close> strips: ECMAScript WhiteSpace (TAB, VT, FF, SP,
  NBSP, ZWNBSP and the Unicode space separators) and LineTerminator (LF, CR, LS, PS).
\<close>

definition is_js_space :: "16 word \<Rightarrow> bool" where
  "is_js_space c \<longleftrightarrow>
     c = 0x0009 \<or> c = 0x000A \<or> c = 0x000B \<or> c = 0x000C \<or> c = 0x000D \<or> c = 0x0020 \<or>
     c = 0x00A0 \<or> c = 0x1680 \<or> (0x2000 \<le> c \<and> c \<le> 0x200A) \<or> c = 0x2028 \<or>
     c = 0x2029 \<or> c = 0x202F \<or> c = 0x205F \<or> c = 0x3000 \<or> c = 0xFEFF"

definition jstrim :: "jsstring \<Rightarrow> jsstring" where
  "jstrim s = rev (dropWhile is_js_space (rev (dropWhile is_js_space s)))"

text \<open>
  The method call \<open>v.trim()\<close>: reading a property of \<open>undefined\<close> or \<open>null\<close> raises a
  TypeError, and so does calling the missing \<open>trim\<close> of a boolean or of an object.
\<close>

fun call_trim :: "jsval \<Rightarrow> js_error + jsstring" where
  "call_trim (JStr s) = Inr (jstrim s)"
| "call_trim _ = Inl TypeError"

section \<open>Dates (the part of ECMAScript's \<open>Date\<close> the validator uses)\<close>

text \<open>
  A time value is a number of milliseconds since 1970-01-01T00:00:00Z; \<open>None\<close> stands for
  NaN, the time value of an invalid \<open>Date\<close>. Day numbers follow ECMAScript's
  \<open>DayFromYear\<close>, \<open>MakeDay\<close> and \<open>MakeTime\<close>, with months counted from 1 as in the
  date string.
\<close>

definition msPerDay :: int where
  "msPerDay = 86400000"

definition InLeapYear :: "int \<Rightarrow> bool" where
  "InLeapYear y \<longleftrightarrow> (y mod 4 = 0 \<and> y mod 100 \<noteq> 0) \<or> y mod 400 = 0"

definition DayFromYear :: "int \<Rightarrow> int" where
  "DayFromYear y =
     365 * (y - 1970) + (y - 1969) div 4 - (y - 1901) div 100 + (y - 1601) div 400"

definition DaysInMonth :: "int \<Rightarrow> int \<Rightarrow> int" where
  "DaysInMonth y m =
     (if m = 2 then (if InLeapYear y then 29 else 28)
      else if m = 4 \<or> m = 6 \<or> m = 9 \<or> m = 11 then 30 else 31)"

definition DaysBeforeMonth :: "int \<Rightarrow> int \<Rightarrow> int" where
  "DaysBeforeMonth y m =
     (if m \<le> 1 then 0 else if m = 2 then 31
      else (if InLeapYear y then 1 else 0) +
        (if m = 3 then 59 else if m = 4 then 90 else if m = 5 then 120
         else if m = 6 then 151 else if m = 7 then 181 else if m = 8 then 212
         else if m = 9 then 243 else if m = 10 then 273 else if m = 11 then 304
         else 334))"

definition MakeDay :: "int \<Rightarrow> int \<Rightarrow> int \<Rightarrow> int" where
  "MakeDay y m d = DayFromYear y + DaysBeforeMonth y m + d - 1"

definition MakeTime :: "int \<Rightarrow> int \<Rightarrow> int \<Rightarrow> int \<Rightarrow> int" where
  "MakeTime h mi s ms = h * 3600000 + mi * 60000 + s * 1000 + ms"

definition TimeClip :: "int \<Rightarrow> int option" where
  "TimeClip t = (if \<bar>t\<bar> > 8640000000000000 then None else Some t)"

definition validCivil :: "int \<Rightarrow> int \<Rightarrow> int \<Rightarrow> bool" where
  "validCivil y m d \<longleftrightarrow> 1 \<le> m \<and> m \<le> 12 \<and> 1 \<le> d \<and> d \<le> DaysInMonth y m"

definition is_digit :: "16 word \<Rightarrow> bool" where
  "is_digit c \<longleftrightarrow> 0x30 \<le> c \<and> c \<le> 0x39"

definition digit :: "16 word \<Rightarrow> int" where
  "digit c = uint c - 48"

text \<open>
  The date-only form \<open>YYYY-MM-DD\<close> of ECMAScript's date-time string format (what an
  \<open>input type="date"\<close> submits): four digits, a hyphen, two digits, a hyphen, two digits.
\<close>

definition isoDate :: "jsstring \<Rightarrow> (int \<times> int \<times> int) option" where
  "isoDate s =
     (if length s = 10 \<and> is_digit (s ! 0) \<and> is_digit (s ! 1) \<and> is_digit (s ! 2) \<and>
         is_digit (s ! 3) \<and> s ! 4 = 0x2D \<and> is_digit (s ! 5) \<and> is_digit (s ! 6) \<and>
         s ! 7 = 0x2D \<and> is_digit (s ! 8) \<and> is_digit (s ! 9)
      then Some (1000 * digit (s ! 0) + 100 * digit (s ! 1) + 10 * digit (s ! 2) + digit (s ! 3),
                 10 * digit (s ! 5) + digit (s ! 6),
                 10 * digit (s ! 8) + digit (s ! 9))
      else None)"

text \<open>
  The host environment of one call: the clock, the local time zone adjustment
  \<open>LocalTZA(t, isUTC)\<close> in milliseconds, and what \<open>Date.parse\<close> returns for every string
  that is not a date-only string of a calendar date (ECMAScript leaves those to the
  implementation, or to the date-time forms that no rule of the validator depends on).
\<close>

record env =
  now :: int
  localTZA :: "int \<Rightarrow> bool \<Rightarrow> int"
  parseFallback :: "jsstring \<Rightarrow> int option"

text \<open>\<open>Date.parse\<close>: a date-only string is midnight UTC of that day.\<close>

definition Date_parse :: "env \<Rightarrow> jsstring \<Rightarrow> int option" where
  "Date_parse E s =
     (case isoDate s of
        Some (y, m, d) \<Rightarrow>
          if validCivil y m d then Some (MakeDay y m d * msPerDay) else parseFallback E s
      | None \<Rightarrow> parseFallback E s)"

text \<open>
  \<open>new Date(v)\<close>. Only the string case is reached from \<open>validateDate\<close>: the guard before it
  returns or raises for every other value. The others convert through ToNumber.
\<close>

fun Date_new :: "env \<Rightarrow> jsval \<Rightarrow> int option" where
  "Date_new E (JStr s) = Date_parse E s"
| "Date_new E JNull = Some 0"
| "Date_new E (JBool b) = Some (if b then 1 else 0)"
| "Date_new E JUndefined = None"
| "Date_new E JObject = None"

text \<open>
  \<open>today = new Date(); today.setHours(23, 59, 59, 999)\<close>: the last millisecond of the
  current day in local time, converted back to UTC.
\<close>

definition endOfToday :: "env \<Rightarrow> int option" where
  "endOfToday E =
     (let t = now E + localTZA E (now E) True;
          date = (t div msPerDay) * msPerDay + MakeTime 23 59 59 999
      in TimeClip (date - localTZA E date False))"

text \<open>\<open>a < b\<close> on the time values of two dates: false when either is NaN.\<close>

fun tv_less :: "int option \<Rightarrow> int option \<Rightarrow> bool" where
  "tv_less (Some a) (Some b) = (a < b)"
| "tv_less _ _ = False"

section \<open>Field validators (frontend/scripts/app.js)\<close>

text \<open>
  A validator returns \<open>{ valid: false, message: '...' }\<close> or \<open>{ valid: true }\<close>; reading
  \<open>message\<close> of the latter gives \<open>undefined\<close>.
\<close>

record vresult =
  valid :: bool
  message :: jsval

definition reject :: "string \<Rightarrow> vresult" where
  "reject m = \<lparr>valid = False, message = js m\<rparr>"

definition accept :: vresult where
  "accept = \<lparr>valid = True, message = JUndefined\<rparr>"

text \<open>
  The guard \<open>!v || v.trim() === ''\<close> shared by three validators: \<open>Inr True\<close> when the
  value counts as missing, \<open>Inl\<close> when the call of \<open>trim\<close> raises.
\<close>

definition missing :: "jsval \<Rightarrow> js_error + bool" where
  "missing v =
     (if \<not> truthy v then Inr True
      else case call_trim v of Inl e \<Rightarrow> Inl e | Inr t \<Rightarrow> Inr (t = []))"

definition validateDate :: "env \<Rightarrow> jsval \<Rightarrow> js_error + vresult" where
  "validateDate E dateStr =
     (case missing dateStr of
        Inl e \<Rightarrow> Inl e
      | Inr True \<Rightarrow> Inr (reject ''Birth date is required'')
      | Inr False \<Rightarrow>
          (let date = Date_new E dateStr;
               today = endOfToday E;
               minDate = Date_new E (js ''1900-01-01'')
           in if date = None then Inr (reject ''Please enter a valid date'')
              else if tv_less today date then Inr (reject ''Birth date cannot be in the future'')
              else if tv_less date minDate then Inr (reject ''Birth date must be after 1900'')
              else Inr accept))"

definition validateLocation :: "jsval \<Rightarrow> js_error + vresult" where
  "validateLocation location =
     (case missing location of
        Inl e \<Rightarrow> Inl e
      | Inr True \<Rightarrow> Inr (reject ''Birth location is required'')
      | Inr False \<Rightarrow>
          (case call_trim location of
             Inl e \<Rightarrow> Inl e
           | Inr trimmed \<Rightarrow>
               if length trimmed < 3 then Inr (reject ''Location must be at least 3 characters'')
               else if length trimmed > 100
                 then Inr (reject ''Location is too long (max 100 characters)'')
               else Inr accept))"

definition validateTime :: "jsval \<Rightarrow> js_error + vresult" where
  "validateTime timeStr =
     (case missing timeStr of
        Inl e \<Rightarrow> Inl e
      | Inr True \<Rightarrow> Inr (reject ''Birth time is required'')
      | Inr False \<Rightarrow> Inr accept)"

definition validateGender :: "jsval \<Rightarrow> vresult" where
  "validateGender gender =
     (if \<not> truthy gender then reject ''Please select a gender''
      else if gender \<noteq> js ''male'' \<and> gender \<noteq> js ''female''
        then reject ''Gender must be male or female''
      else accept)"

section \<open>validateForm\<close>

record form_data =
  birth_date :: jsval
  birth_time :: jsval
  location :: jsval
  gender :: jsval

text \<open>
  The object \<open>{ valid: errors.length === 0, errors: errors }\<close>; its field \<open>valid\<close> is
  named \<open>form_valid\<close> here, apart from the \<open>valid\<close> of a single validator's result.
\<close>

record form_result =
  form_valid :: bool
  errors :: "jsval list"

text \<open>\<open>if (!r.valid) errors.push(r.message)\<close>.\<close>

definition push_failure :: "vresult \<Rightarrow> jsval list \<Rightarrow> jsval list" where
  "push_failure r errs = (if \<not> valid r then errs @ [message r] else errs)"

definition validateForm :: "env \<Rightarrow> form_data \<Rightarrow> js_error + form_result" where
  "validateForm E data =
     (case validateDate E (birth_date data) of
        Inl e \<Rightarrow> Inl e
      | Inr dateResult \<Rightarrow>
     (case validateTime (birth_time data) of
        Inl e \<Rightarrow> Inl e
      | Inr timeResult \<Rightarrow>
     (case validateLocation (location data) of
        Inl e \<Rightarrow> Inl e
      | Inr locationResult \<Rightarrow>
          (let genderResult = validateGender (gender data);
               errs = push_failure genderResult (push_failure locationResult
                        (push_failure timeResult (push_failure dateResult [])))
           in Inr \<lparr>form_valid = (length errs = 0), errors = errs\<rparr>))))"

section \<open>Form submission handler\<close>

text \<open>
  What \<open>FormData.get\<close> returns for the four field names: a string, \<open>null\<close> for a name
  the form does not have, or a \<open>File\<close> object (\<open>JObject\<close>).
\<close>

record form =
  get_birth_date :: jsval
  get_birth_time :: jsval
  get_location :: jsval
  get_gender :: jsval

text \<open>The optional call \<open>v?.trim()\<close>: \<open>undefined\<close> for \<open>null\<close> and \<open>undefined\<close>.\<close>

fun opt_trim :: "jsval \<Rightarrow> js_error + jsval" where
  "opt_trim JUndefined = Inr JUndefined"
| "opt_trim JNull = Inr JUndefined"
| "opt_trim v = (case call_trim v of Inl e \<Rightarrow> Inl e | Inr t \<Rightarrow> Inr (JStr t))"

definition collect :: "form \<Rightarrow> js_error + form_data" where
  "collect F =
     (case opt_trim (get_location F) of
        Inl e \<Rightarrow> Inl e
      | Inr loc \<Rightarrow> Inr \<lparr>birth_date = get_birth_date F, birth_time = get_birth_time F,
                         location = loc, gender = get_gender F\<rparr>)"

text \<open>
  What the network does with the request, decided outside the program: \<open>fetch\<close> rejects,
  or a response arrives with a status and a body that \<open>response.json()\<close> parses or
  rejects. Of a parsed body the handler only uses the message of the exception that
  \<open>throw new Error(result.detail?.message || result.error || 'Report generation failed')\<close>
  raises for it, and whether \<open>displayResults(result)\<close> raises (with which message) or
  completes.
\<close>

record reply_body =
  failure_message :: jsstring
  display_failure :: "jsstring option"

datatype body_outcome = NotJson jsstring | Json reply_body

datatype fetch_outcome = Rejected jsstring | Response nat body_outcome

text \<open>The observable actions of the handler, in the order they happen.\<close>

datatype event =
    PreventDefault
  | HideError
  | ShowError jsval
  | SetLoading bool
  | HideResults
  | Fetch jsstring form_data
  | ConsoleError jsstring
  | DisplayResults
  | Uncaught js_error

definition API_BASE_URL :: jsstring where
  "API_BASE_URL = ascii ''http://localhost:8000''"

text \<open>\<open>response.ok\<close>.\<close>

definition ok :: "nat \<Rightarrow> bool" where
  "ok st \<longleftrightarrow> 200 \<le> st \<and> st \<le> 299"

text \<open>\<open>xs[0]\<close>: \<open>undefined\<close> on an empty array.\<close>

definition first_of :: "jsval list \<Rightarrow> jsval" where
  "first_of xs = (case xs of [] \<Rightarrow> JUndefined | x # _ \<Rightarrow> x)"

text \<open>The \<open>catch\<close> block followed by the \<open>finally\<close> block, for an error with message \<open>m\<close>.\<close>

definition catch_finally :: "jsstring \<Rightarrow> event list" where
  "catch_finally m =
     [ConsoleError m,
      ShowError (if m \<noteq> [] then JStr m else js ''Something went wrong. Please try again.''),
      SetLoading False]"

definition submit :: "env \<Rightarrow> form \<Rightarrow> fetch_outcome \<Rightarrow> event list" where
  "submit E F net =
     [PreventDefault, HideError] @
     (case collect F of
        Inl e \<Rightarrow> [Uncaught e]
      | Inr data \<Rightarrow>
     (case validateForm E data of
        Inl e \<Rightarrow> [Uncaught e]
      | Inr validation \<Rightarrow>
          if \<not> form_valid validation then [ShowError (first_of (errors validation))]
          else
            [SetLoading True, HideResults,
             Fetch (API_BASE_URL @ ascii ''/api/generate-report'') data] @
            (case net of
               Rejected m \<Rightarrow> catch_finally m
             | Response st body \<Rightarrow>
                 (case body of
                    NotJson m \<Rightarrow> catch_finally m
                  | Json result \<Rightarrow>
                      if \<not> ok st then
                        (if st = 429
                         then catch_finally (ascii
                           ''Rate limit exceeded. Please wait a few minutes before trying again.'')
                         else catch_finally (failure_message result))
                      else
                        DisplayResults #
                        (case display_failure result of
                           None \<Rightarrow> [SetLoading False]
                         | Some m \<Rightarrow> catch_finally m)))))"

section \<open>Sample inputs\<close>

text \<open>
  A sample environment for concrete evaluations: the clock reads 2026-11-01T15:00:00Z in
  a zone five hours behind UTC (10:00 local time on 1 November 2026), and the
  implementation-defined part of the date parser accepts nothing.
\<close>

definition example_env :: env where
  "example_env =
     \<lparr>now = 1793545200000, localTZA = (\<lambda>t isUTC. - 18000000), parseFallback = (\<lambda>s. None)\<rparr>"

definition example_form :: form where
  "example_form =
     \<lparr>get_birth_date = js ''1993-09-28'', get_birth_time = js ''02:22'',
      get_location = js ''Singapore'', get_gender = js ''male''\<rparr>"

section \<open>Basic facts\<close>

lemmas date_defs = Date_parse_def isoDate_def is_digit_def digit_def validCivil_def
  DaysInMonth_def InLeapYear_def MakeDay_def DayFromYear_def DaysBeforeMonth_def msPerDay_def
  endOfToday_def MakeTime_def TimeClip_def

lemmas string_defs = ascii_def jstrim_def is_js_space_def

lemma missing_JStr [simp]: "missing (JStr s) = Inr (jstrim s = [])"
  by (cases s) (simp_all add: missing_def jstrim_def)

lemma missing_falsy: "\<not> truthy v \<Longrightarrow> missing v = Inr True"
  by (simp add: missing_def)

lemma valid_reject [simp]: "valid (reject m) = False"
  by (simp add: reject_def)

lemma valid_accept [simp]: "valid accept = True"
  by (simp add: accept_def)

lemma validateTime_JStr:
  "validateTime (JStr s) =
     Inr (if jstrim s = [] then reject ''Birth time is required'' else accept)"
  by (simp add: validateTime_def)

lemma validateLocation_JStr:
  "validateLocation (JStr s) = Inr
     (if jstrim s = [] then reject ''Birth location is required''
      else if length (jstrim s) < 3 then reject ''Location must be at least 3 characters''
      else if length (jstrim s) > 100 then reject ''Location is too long (max 100 characters)''
      else accept)"
  by (simp add: validateLocation_def)

section \<open>Calendar arithmetic and the date validator on strings\<close>

lemma month_cases:
  fixes m :: int
  assumes "1 \<le> m" "m \<le> 12"
  shows "m = 1 \<or> m = 2 \<or> m = 3 \<or> m = 4 \<or> m = 5 \<or> m = 6 \<or>
         m = 7 \<or> m = 8 \<or> m = 9 \<or> m = 10 \<or> m = 11 \<or> m = 12"
  using assms by arith

lemma day_in_year_bound:
  assumes "validCivil y m d"
  shows "DaysBeforeMonth y m + d - 1 \<le> 365"
proof -
  from assms have m: "1 \<le> m" "m \<le> 12" and d: "1 \<le> d" "d \<le> DaysInMonth y m"
    by (simp_all add: validCivil_def)
  from month_cases [OF m] d show ?thesis
    by (elim disjE) (simp_all add: DaysBeforeMonth_def DaysInMonth_def split: if_splits)
qed

lemma early_linear:
  fixes y A B C :: int
  assumes "4 * A \<le> y - 1969" "y - 1901 < 100 * B + 100" "400 * C \<le> y - 1601" "y \<le> 1898"
  shows "365 * y - 719050 + A - B + C + 365 < - 25567"
  using assms by linarith

lemma DayFromYear_early:
  assumes "y \<le> 1898"
  shows "DayFromYear y + 365 < - 25567"
proof -
  have a: "4 * ((y - 1969) div 4) \<le> y - 1969" by simp
  have b: "y - 1901 < 100 * ((y - 1901) div 100) + 100"
    using pos_mod_bound [of 100 "y - 1901"] by (simp add: minus_mod_eq_mult_div [symmetric])
  have c: "400 * ((y - 1601) div 400) \<le> y - 1601" by simp
  from early_linear [OF a b c assms] show ?thesis
    by (simp add: DayFromYear_def right_diff_distrib)
qed

lemma MakeDay_before_1900:
  assumes "validCivil y m d" "y < 1900"
  shows "MakeDay y m d < - 25567"
proof (cases "y = 1899")
  case True
  from assms(1) have m: "1 \<le> m" "m \<le> 12" and d: "1 \<le> d" "d \<le> DaysInMonth y m"
    by (simp_all add: validCivil_def)
  from month_cases [OF m] d True show ?thesis
    by (elim disjE)
      (simp_all add: MakeDay_def DayFromYear_def DaysBeforeMonth_def DaysInMonth_def
         InLeapYear_def)
next
  case False
  with assms(2) have "y \<le> 1898" by simp
  from DayFromYear_early [OF this] day_in_year_bound [OF assms(1)] show ?thesis
    by (simp add: MakeDay_def)
qed

lemma jstrim_empty_iff: "jstrim s = [] \<longleftrightarrow> (\<forall>c\<in>set s. is_js_space c)"
proof -
  have "jstrim s = [] \<longleftrightarrow> (\<forall>c\<in>set (dropWhile is_js_space s). is_js_space c)"
    by (simp add: jstrim_def dropWhile_eq_Nil_conv)
  also have "\<dots> \<longleftrightarrow> dropWhile is_js_space s = []"
  proof (cases "dropWhile is_js_space s")
    case Nil
    then show ?thesis by (auto dest: set_dropWhileD)
  next
    case (Cons x xs)
    then have "\<not> is_js_space x" using hd_dropWhile [of is_js_space s] by simp
    with Cons show ?thesis by auto
  qed
  also have "\<dots> \<longleftrightarrow> (\<forall>c\<in>set s. is_js_space c)"
    by (simp add: dropWhile_eq_Nil_conv)
  finally show ?thesis .
qed

lemma digit_not_space: "is_digit c \<Longrightarrow> \<not> is_js_space c"
  unfolding is_digit_def is_js_space_def by (auto simp add: word_le_def word_less_def)

lemma isoDate_not_blank:
  assumes "isoDate s = Some ymd"
  shows "jstrim s \<noteq> []"
proof -
  from assms have "length s = 10" "is_digit (s ! 0)"
    by (auto simp add: isoDate_def split: if_splits)
  then have "s ! 0 \<in> set s" "\<not> is_js_space (s ! 0)"
    by (simp_all add: digit_not_space)
  then show ?thesis by (auto simp add: jstrim_empty_iff)
qed

lemma minDate_value [simp]: "Date_parse E (ascii ''1900-01-01'') = Some (- 2208988800000)"
  by (simp add: date_defs string_defs)

lemma tv_1900: "MakeDay 1900 1 1 * msPerDay = - 2208988800000"
  by (simp add: date_defs)

lemma validateDate_JStr:
  "validateDate E (JStr s) = Inr
     (if jstrim s = [] then reject ''Birth date is required''
      else case Date_parse E s of
        None \<Rightarrow> reject ''Please enter a valid date''
      | Some t \<Rightarrow>
          if tv_less (endOfToday E) (Some t) then reject ''Birth date cannot be in the future''
          else if t < - 2208988800000 then reject ''Birth date must be after 1900''
          else accept)"
  by (simp add: validateDate_def Let_def split: option.splits)

lemma tv_less_trans: "tv_less a (Some t) \<Longrightarrow> t < u \<Longrightarrow> tv_less a (Some u)"
  by (cases a) simp_all

section \<open>Dates before 1900\<close>

text \<open>
  C3. For every date string \<open>YYYY-MM-DD\<close> of a calendar date before 1900-01-01,
  \<open>validateDate\<close> rejects with the minimum-date message "Birth date must be after 1900",
  provided the end of the current day is not itself before 1900-01-01 (otherwise the
  future-date check, which comes first, may fire instead).
\<close>

theorem validateDate_before_1900:
  assumes "isoDate s = Some (y, m, d)" and "validCivil y m d" and "y < 1900"
    and "\<not> tv_less (endOfToday E) (Date_new E (js ''1900-01-01''))"
  shows "validateDate E (JStr s) = Inr (reject ''Birth date must be after 1900'')"
proof -
  let ?t = "MakeDay y m d * msPerDay"
  have p: "Date_parse E s = Some ?t"
    using assms(1,2) by (simp add: Date_parse_def)
  have lt: "?t < - 2208988800000"
    using MakeDay_before_1900 [OF assms(2,3)] by (simp add: msPerDay_def)
  have "\<not> tv_less (endOfToday E) (Some ?t)"
    using assms(4) tv_less_trans [OF _ lt] by auto
  with p lt isoDate_not_blank [OF assms(1)] show ?thesis
    by (simp add: validateDate_JStr)
qed

theorem validateDate_before_1900_witness:
  "validateDate example_env (js ''1899-12-31'') = Inr (reject ''Birth date must be after 1900'')"
proof -
  have i: "isoDate (ascii ''1899-12-31'') = Some (1899, 12, 31)"
    by (simp add: date_defs string_defs)
  have v: "validCivil 1899 12 31"
    by (simp add: date_defs)
  have y: "(1899::int) < 1900" by simp
  have c: "\<not> tv_less (endOfToday example_env) (Date_new example_env (js ''1900-01-01''))"
    by simp (simp add: example_env_def date_defs)
  from validateDate_before_1900 [OF i v y c] show ?thesis .
qed

section \<open>The boundary date\<close>

text \<open>
  C9. \<open>validateDate\<close> accepts 1900-01-01 itself, because the comparison with the
  minimum date is strict: the day before is rejected with "Birth date must be after
  1900", and every accepted string has a time value at or after midnight UTC of
  1900-01-01. The clock is assumed not to be before 1900-01-01.
\<close>

theorem validateDate_boundary_accepted:
  assumes "\<not> tv_less (endOfToday E) (Date_new E (js ''1900-01-01''))"
  shows "validateDate E (js ''1900-01-01'') = Inr accept \<and>
         validateDate E (js ''1899-12-31'') = Inr (reject ''Birth date must be after 1900'') \<and>
         (\<forall>s. validateDate E (JStr s) = Inr accept \<longrightarrow>
              (\<exists>t. Date_parse E s = Some t \<and> MakeDay 1900 1 1 * msPerDay \<le> t))"
proof (intro conjI allI impI)
  have p: "Date_parse E (ascii ''1900-01-01'') = Some (- 2208988800000)"
    by simp
  have b: "jstrim (ascii ''1900-01-01'') \<noteq> []"
    by (simp add: string_defs)
  from assms p b show "validateDate E (js ''1900-01-01'') = Inr accept"
    by (simp add: validateDate_JStr)
next
  have p: "Date_parse E (ascii ''1899-12-31'') = Some (- 2209075200000)"
    by (simp add: date_defs string_defs)
  have b: "jstrim (ascii ''1899-12-31'') \<noteq> []"
    by (simp add: string_defs)
  have "\<not> tv_less (endOfToday E) (Some (- 2209075200000))"
    using assms tv_less_trans [of "endOfToday E" "- 2209075200000" "- 2208988800000"]
    by auto
  with p b show "validateDate E (js ''1899-12-31'') = Inr (reject ''Birth date must be after 1900'')"
    by (simp add: validateDate_JStr)
next
  fix s
  assume "validateDate E (JStr s) = Inr accept"
  then show "\<exists>t. Date_parse E s = Some t \<and> MakeDay 1900 1 1 * msPerDay \<le> t"
    by (auto simp add: validateDate_JStr reject_def accept_def tv_1900
        split: if_splits option.splits)
qed

theorem validateDate_boundary_accepted_witness:
  "validateDate example_env (js ''1900-01-01'') = Inr accept \<and>
   (\<exists>t. Date_parse example_env (ascii ''1993-09-28'') = Some t \<and> MakeDay 1900 1 1 * msPerDay \<le> t)"
proof -
  have c: "\<not> tv_less (endOfToday example_env) (Date_new example_env (js ''1900-01-01''))"
    by simp (simp add: example_env_def date_defs)
  have a: "validateDate example_env (js ''1993-09-28'') = Inr accept"
    by (simp add: validateDate_def example_env_def date_defs string_defs)
  from validateDate_boundary_accepted [OF c] a show ?thesis by blast
qed

section \<open>Dates after the current date\<close>

text \<open>
  C2. The claim is that every date strictly after the current date is rejected. At
  10:00 local time on 2026-11-01 in a zone five hours behind UTC (15:00 UTC the same
  day), the date string 2026-11-02 is a calendar date after the current date, both
  locally and in UTC, and \<open>validateDate\<close> accepts it: the string is read as midnight
  UTC, which is before the end of the local day.
\<close>

theorem validateDate_accepts_tomorrow:
  "isoDate (ascii ''2026-11-02'') = Some (2026, 11, 2) \<and>
   (now example_env + localTZA example_env (now example_env) True) div msPerDay = MakeDay 2026 11 1 \<and>
   now example_env div msPerDay = MakeDay 2026 11 1 \<and>
   validateDate example_env (js ''2026-11-02'') = Inr accept"
  by (simp add: validateDate_def example_env_def date_defs string_defs)

text \<open>
  What the future-date check does decide: a string whose time value lies after the last
  millisecond of the current local day is rejected as a future date.
\<close>

lemma validateDate_after_end_of_today:
  assumes "jstrim s \<noteq> []" and "Date_parse E s = Some t" and "endOfToday E = Some T"
    and "T < t"
  shows "validateDate E (JStr s) = Inr (reject ''Birth date cannot be in the future'')"
  using assms by (simp add: validateDate_JStr)

section \<open>Location length\<close>

text \<open>
  C4. For every location string, \<open>validateLocation\<close> returns a result, and the result
  is valid exactly when the trimmed length lies in [3, 100]: a trimmed length below 3
  and a trimmed length above 100 are both rejected.
\<close>

theorem validateLocation_length:
  "\<exists>r. validateLocation (JStr s) = Inr r \<and>
       valid r = (3 \<le> length (jstrim s) \<and> length (jstrim s) \<le> 100)"
  by (auto simp add: validateLocation_JStr)

section \<open>Time: presence only\<close>

text \<open>
  C10. \<open>validateTime\<close> accepts every string that is non-empty after trimming, whether
  or not it is a clock value (\<open>"abc"\<close> is accepted), and rejects the strings that trim
  to the empty string as well as \<open>null\<close> and \<open>undefined\<close>.
\<close>

theorem validateTime_presence_only:
  "validateTime (JStr s) =
     Inr (if jstrim s = [] then reject ''Birth time is required'' else accept) \<and>
   validateTime JNull = Inr (reject ''Birth time is required'') \<and>
   validateTime JUndefined = Inr (reject ''Birth time is required'') \<and>
   validateTime (js ''abc'') = Inr accept"
  by (simp add: validateTime_JStr) (simp add: validateTime_def missing_def string_defs)

section \<open>The validators return instead of raising\<close>

lemma validateDate_returns:
  assumes "is_string v \<or> \<not> truthy v"
  shows "\<exists>r. validateDate E v = Inr r"
proof (cases v)
  case (JStr s)
  then show ?thesis by (simp add: validateDate_JStr)
qed (use assms in \<open>simp_all add: validateDate_def missing_def\<close>)

lemma validateTime_returns:
  assumes "is_string v \<or> \<not> truthy v"
  shows "\<exists>r. validateTime v = Inr r"
proof (cases v)
  case (JStr s)
  then show ?thesis by (simp add: validateTime_JStr)
qed (use assms in \<open>simp_all add: validateTime_def missing_def\<close>)

lemma validateLocation_returns:
  assumes "is_string v \<or> \<not> truthy v"
  shows "\<exists>r. validateLocation v = Inr r"
proof (cases v)
  case (JStr s)
  then show ?thesis by (simp add: validateLocation_JStr)
qed (use assms in \<open>simp_all add: validateLocation_def missing_def\<close>)

text \<open>
  C5, as stated, fails: a value that is neither falsy nor a string has no \<open>trim\<close>
  method, so the call raises a TypeError. A \<open>File\<close> object in the time field is such
  a value.
\<close>

theorem validators_raise_on_object:
  "validateTime JObject = Inl TypeError \<and>
   validateForm example_env \<lparr>birth_date = js ''1993-09-28'', birth_time = JObject,
      location = js ''Singapore'', gender = js ''male''\<rparr> = Inl TypeError"
  by (simp add: validateForm_def validateTime_def missing_def validateDate_JStr)

text \<open>
  C5, amended. For field values that are strings (empty and malformed ones included),
  \<open>null\<close>, \<open>undefined\<close> or any other falsy value, the validators of date, time and
  location return a result, and so does \<open>validateForm\<close> on an object with such fields
  and any \<open>gender\<close> (\<open>validateGender\<close> performs no operation that can raise).
\<close>

theorem validators_return_normally:
  assumes "is_string d \<or> \<not> truthy d" and "is_string t \<or> \<not> truthy t"
    and "is_string l \<or> \<not> truthy l"
  shows "(\<exists>r. validateDate E d = Inr r) \<and> (\<exists>r. validateTime t = Inr r) \<and>
         (\<exists>r. validateLocation l = Inr r) \<and>
         (\<exists>r. validateForm E \<lparr>birth_date = d, birth_time = t, location = l, gender = g\<rparr> = Inr r)"
proof -
  from validateDate_returns [OF assms(1)] obtain rd where d: "validateDate E d = Inr rd" ..
  from validateTime_returns [OF assms(2)] obtain rt where t: "validateTime t = Inr rt" ..
  from validateLocation_returns [OF assms(3)] obtain rl where l: "validateLocation l = Inr rl" ..
  from d t l show ?thesis
    by (simp add: validateForm_def Let_def)
qed

theorem validators_return_normally_witness:
  "(\<exists>r. validateDate example_env (js ''not a date'') = Inr r) \<and> (\<exists>r. validateTime JNull = Inr r) \<and>
   (\<exists>r. validateLocation JUndefined = Inr r) \<and>
   (\<exists>r. validateForm example_env \<lparr>birth_date = js ''not a date'', birth_time = JNull,
          location = JUndefined, gender = JObject\<rparr> = Inr r)"
proof -
  have d: "is_string (js ''not a date'') \<or> \<not> truthy (js ''not a date'')" by simp
  have t: "is_string JNull \<or> \<not> truthy JNull" by simp
  have l: "is_string JUndefined \<or> \<not> truthy JUndefined" by simp
  from validators_return_normally [OF d t l] show ?thesis .
qed

section \<open>validateForm aggregates the four validators\<close>

lemma validateForm_of_results:
  assumes "validateDate E d = Inr rd" and "validateTime t = Inr rt"
    and "validateLocation l = Inr rl"
  shows "validateForm E \<lparr>birth_date = d, birth_time = t, location = l, gender = g\<rparr> =
           Inr \<lparr>form_valid = (valid rd \<and> valid rt \<and> valid rl \<and> valid (validateGender g)),
                errors = (if valid rd then [] else [message rd]) @
                         (if valid rt then [] else [message rt]) @
                         (if valid rl then [] else [message rl]) @
                         (if valid (validateGender g) then [] else [message (validateGender g)])\<rparr>"
  using assms by (simp add: validateForm_def Let_def push_failure_def)

text \<open>
  C1, as stated, fails: \<open>validateForm\<close> does not return for every set of raw field
  values. When a field that is trimmed holds a truthy value that is not a string (a
  \<open>File\<close> object as \<open>birth_date\<close>), the call of \<open>trim\<close> raises a TypeError and
  \<open>validateForm\<close> returns no result at all.
\<close>

theorem validateForm_raises_on_object:
  "validateForm example_env
     \<lparr>birth_date = JObject, birth_time = js ''02:22'',
      location = js ''Singapore'', gender = js ''male''\<rparr> = Inl TypeError \<and>
   \<not> (\<exists>r. validateForm example_env
     \<lparr>birth_date = JObject, birth_time = js ''02:22'',
      location = js ''Singapore'', gender = js ''male''\<rparr> = Inr r)"
  by (simp add: validateForm_def validateDate_def missing_def)

text \<open>
  C1, amended. For all field values of which \<open>birth_date\<close>, \<open>birth_time\<close> and
  \<open>location\<close> are strings, \<open>null\<close>, \<open>undefined\<close> or another falsy value, and \<open>gender\<close>
  is any value, the four validators return results and \<open>validateForm\<close> returns a
  result that is valid exactly when all four are valid, and whose \<open>errors\<close> are the
  messages of the failing fields in the order date, time, location, gender.
\<close>

theorem validateForm_on_field_values:
  assumes "is_string d \<or> \<not> truthy d" and "is_string t \<or> \<not> truthy t"
    and "is_string l \<or> \<not> truthy l"
  shows "\<exists>rd rt rl.
           validateDate E d = Inr rd \<and> validateTime t = Inr rt \<and>
           validateLocation l = Inr rl \<and>
           validateForm E \<lparr>birth_date = d, birth_time = t, location = l, gender = g\<rparr> =
             Inr \<lparr>form_valid =
                    (valid rd \<and> valid rt \<and> valid rl \<and> valid (validateGender g)),
                  errors = (if valid rd then [] else [message rd]) @
                           (if valid rt then [] else [message rt]) @
                           (if valid rl then [] else [message rl]) @
                           (if valid (validateGender g) then []
                            else [message (validateGender g)])\<rparr>"
proof -
  from validateDate_returns [OF assms(1)] obtain rd where d: "validateDate E d = Inr rd" ..
  from validateTime_returns [OF assms(2)] obtain rt where t: "validateTime t = Inr rt" ..
  from validateLocation_returns [OF assms(3)] obtain rl where l: "validateLocation l = Inr rl" ..
  from d t l validateForm_of_results [OF d t l, of g] show ?thesis
    by blast
qed

theorem validateForm_on_field_values_witness:
  "validateForm example_env
     \<lparr>birth_date = js ''1899-12-31'', birth_time = js ''02:22'',
      location = js ''Singapore'', gender = JNull\<rparr> =
   Inr \<lparr>form_valid = False,
        errors = [js ''Birth date must be after 1900'', js ''Please select a gender'']\<rparr>"
proof -
  have hd: "is_string (js ''1899-12-31'') \<or> \<not> truthy (js ''1899-12-31'')" by simp
  have ht: "is_string (js ''02:22'') \<or> \<not> truthy (js ''02:22'')" by simp
  have hl: "is_string (js ''Singapore'') \<or> \<not> truthy (js ''Singapore'')" by simp
  have d: "validateDate example_env (js ''1899-12-31'') =
             Inr (reject ''Birth date must be after 1900'')"
    by (simp add: validateDate_def example_env_def date_defs string_defs)
  have t: "validateTime (js ''02:22'') = Inr accept"
    by (simp add: validateTime_JStr string_defs)
  have l: "validateLocation (js ''Singapore'') = Inr accept"
    by (simp add: validateLocation_JStr string_defs)
  have g: "validateGender JNull = reject ''Please select a gender''"
    by (simp add: validateGender_def)
  from validateForm_on_field_values [OF hd ht hl, of example_env JNull]
  obtain rd rt rl where
    r: "validateDate example_env (js ''1899-12-31'') = Inr rd"
       "validateTime (js ''02:22'') = Inr rt"
       "validateLocation (js ''Singapore'') = Inr rl"
    and f: "validateForm example_env
       \<lparr>birth_date = js ''1899-12-31'', birth_time = js ''02:22'',
        location = js ''Singapore'', gender = JNull\<rparr> =
       Inr \<lparr>form_valid = (valid rd \<and> valid rt \<and> valid rl \<and> valid (validateGender JNull)),
            errors = (if valid rd then [] else [message rd]) @
                     (if valid rt then [] else [message rt]) @
                     (if valid rl then [] else [message rl]) @
                     (if valid (validateGender JNull) then []
                      else [message (validateGender JNull)])\<rparr>"
    by blast
  from r d t l have "rd = reject ''Birth date must be after 1900''" "rt = accept" "rl = accept"
    by simp_all
  with f g show ?thesis
    by (simp add: reject_def)
qed

section \<open>Validation gates the network request\<close>

lemma invalid_has_error:
  assumes "validateForm E data = Inr v" "\<not> form_valid v"
  shows "errors v \<noteq> []"
  using assms by (auto simp add: validateForm_def Let_def split: sum.splits)

lemma example_form_valid:
  "collect example_form = Inr \<lparr>birth_date = js ''1993-09-28'', birth_time = js ''02:22'',
      location = js ''Singapore'', gender = js ''male''\<rparr>"
  "validateForm example_env \<lparr>birth_date = js ''1993-09-28'', birth_time = js ''02:22'',
      location = js ''Singapore'', gender = js ''male''\<rparr> = Inr \<lparr>form_valid = True, errors = []\<rparr>"
  by (simp_all add: collect_def example_form_def  validateForm_def Let_def push_failure_def
    validateDate_JStr validateTime_JStr validateLocation_JStr validateGender_def
     example_env_def date_defs string_defs)

text \<open>
  C6. When the collected field values fail validation, the handler shows the first
  validation error and stops: no \<open>fetch\<close> is issued, whatever the network would have
  done. Conversely a \<open>fetch\<close> is only ever issued with data that \<open>validateForm\<close> has
  returned valid for.
\<close>

theorem submit_gated_by_validation:
  "(\<forall>data v. collect F = Inr data \<and> validateForm E data = Inr v \<and> \<not> form_valid v \<longrightarrow>
      errors v \<noteq> [] \<and>
      submit E F net = [PreventDefault, HideError, ShowError (hd (errors v))] \<and>
      (\<forall>u d. Fetch u d \<notin> set (submit E F net))) \<and>
   (\<forall>u d. Fetch u d \<in> set (submit E F net) \<longrightarrow>
      (\<exists>v. collect F = Inr d \<and> validateForm E d = Inr v \<and> form_valid v))"
proof -
  have invalid: "errors v \<noteq> [] \<and>
      submit E F net = [PreventDefault, HideError, ShowError (hd (errors v))] \<and>
      (\<forall>u d. Fetch u d \<notin> set (submit E F net))"
    if a: "collect F = Inr data \<and> validateForm E data = Inr v \<and> \<not> form_valid v"
    for data v
  proof -
    from a have ne: "errors v \<noteq> []" using invalid_has_error by blast
    then have "first_of (errors v) = hd (errors v)"
      by (cases "errors v") (simp_all add: first_of_def)
    with a have s: "submit E F net = [PreventDefault, HideError, ShowError (hd (errors v))]"
      by (simp add: submit_def)
    from ne s show ?thesis by simp
  qed
  have issued: "\<exists>v. collect F = Inr d \<and> validateForm E d = Inr v \<and> form_valid v"
    if "Fetch u d \<in> set (submit E F net)" for u d
    using that
    by (auto simp add: submit_def catch_finally_def
        split: sum.splits if_splits fetch_outcome.splits body_outcome.splits option.splits)
  from invalid issued show ?thesis by blast
qed

theorem submit_gated_by_validation_witness:
  "submit example_env (example_form\<lparr>get_gender := JNull\<rparr>) (Rejected (ascii ''Failed to fetch'')) =
     [PreventDefault, HideError, ShowError (js ''Please select a gender'')] \<and>
   (\<exists>v. validateForm example_env \<lparr>birth_date = js ''1993-09-28'', birth_time = js ''02:22'',
      location = js ''Singapore'', gender = js ''male''\<rparr> = Inr v \<and> form_valid v)"
proof -
  let ?bad = "\<lparr>birth_date = js ''1993-09-28'', birth_time = js ''02:22'',
      location = js ''Singapore'', gender = JNull\<rparr>"
  let ?good = "\<lparr>birth_date = js ''1993-09-28'', birth_time = js ''02:22'',
      location = js ''Singapore'', gender = js ''male''\<rparr>"
  let ?net = "Rejected (ascii ''Failed to fetch'')"
  have c: "collect (example_form\<lparr>get_gender := JNull\<rparr>) = Inr ?bad"
    by (simp add: collect_def example_form_def string_defs)
  have v: "validateForm example_env ?bad =
             Inr \<lparr>form_valid = False, errors = [js ''Please select a gender'']\<rparr>"
    by (simp add: validateForm_def Let_def push_failure_def validateDate_JStr validateTime_JStr
        validateLocation_JStr validateGender_def example_env_def date_defs string_defs reject_def)
  have f: "Fetch (API_BASE_URL @ ascii ''/api/generate-report'') ?good
             \<in> set (submit example_env example_form ?net)"
    by (simp add: submit_def example_form_valid)
  from submit_gated_by_validation [of "example_form\<lparr>get_gender := JNull\<rparr>" example_env ?net] c v
  have 1: "submit example_env (example_form\<lparr>get_gender := JNull\<rparr>) ?net =
     [PreventDefault, HideError, ShowError (js ''Please select a gender'')]"
    by simp
  from submit_gated_by_validation [of example_form example_env ?net] f
  have 2: "\<exists>v. validateForm example_env ?good = Inr v \<and> form_valid v"
    by blast
  from 1 2 show ?thesis by simp
qed

section \<open>Status 429\<close>

text \<open>
  C7, as stated, fails: the handler parses the body before it looks at the status, so
  a 429 response whose body is not JSON shows the parser's error message, not the
  rate-limit message.
\<close>

theorem submit_429_unparsable_body:
  "submit example_env example_form
     (Response 429 (NotJson (ascii ''Unexpected token T in JSON at position 0''))) =
   [PreventDefault, HideError, SetLoading True, HideResults,
    Fetch (ascii ''http://localhost:8000/api/generate-report'')
      \<lparr>birth_date = js ''1993-09-28'', birth_time = js ''02:22'',
       location = js ''Singapore'', gender = js ''male''\<rparr>,
    ConsoleError (ascii ''Unexpected token T in JSON at position 0''),
    ShowError (js ''Unexpected token T in JSON at position 0''),
    SetLoading False] \<and>
   ShowError (js ''Rate limit exceeded. Please wait a few minutes before trying again.'')
     \<notin> set (submit example_env example_form
         (Response 429 (NotJson (ascii ''Unexpected token T in JSON at position 0''))))"
  by (simp add: submit_def example_form_valid catch_finally_def API_BASE_URL_def)
     (simp add: ascii_def)

text \<open>
  C7, amended. When the request has been issued and the response has status 429 and a
  body that parses as JSON, the handler shows "Rate limit exceeded. Please wait a few
  minutes before trying again." and does not display results.
\<close>

theorem submit_429:
  assumes "collect F = Inr data" and "validateForm E data = Inr v" and "form_valid v"
  shows "submit E F (Response 429 (Json body)) =
           [PreventDefault, HideError, SetLoading True, HideResults,
            Fetch (API_BASE_URL @ ascii ''/api/generate-report'') data,
            ConsoleError (ascii ''Rate limit exceeded. Please wait a few minutes before trying again.''),
            ShowError (js ''Rate limit exceeded. Please wait a few minutes before trying again.''),
            SetLoading False] \<and>
         DisplayResults \<notin> set (submit E F (Response 429 (Json body)))"
  using assms by (simp add: submit_def ok_def catch_finally_def) (simp add: ascii_def)

theorem submit_429_witness:
  "submit example_env example_form
     (Response 429 (Json \<lparr>failure_message = ascii ''Too Many Requests'', display_failure = None\<rparr>)) =
   [PreventDefault, HideError, SetLoading True, HideResults,
    Fetch (ascii ''http://localhost:8000/api/generate-report'')
      \<lparr>birth_date = js ''1993-09-28'', birth_time = js ''02:22'',
       location = js ''Singapore'', gender = js ''male''\<rparr>,
    ConsoleError (ascii ''Rate limit exceeded. Please wait a few minutes before trying again.''),
    ShowError (js ''Rate limit exceeded. Please wait a few minutes before trying again.''),
    SetLoading False]"
proof -
  have t: "form_valid \<lparr>form_valid = True, errors = []\<rparr>" by simp
  from submit_429 [OF example_form_valid t] show ?thesis
    by (simp add: API_BASE_URL_def ascii_def)
qed

end
